theory Spec2Isabelle
  imports Complex_Main "HOL-Library.Word" "HOL-Library.Log_Nat" "HOL-Library.Sublist"
begin

unbundle bit_operations_syntax

section \<open>IEEE 754 binary64 values\<close>

text \<open>
  A C++ \<open>double\<close> is modelled by its 64 bits: bit 63 is the sign, bits 62..52 the biased
  exponent and bits 51..0 the fraction. Equality of two words is bit-exact equality of the
  two doubles.
\<close>

type_synonym double = "64 word"

definition signbit :: "double \<Rightarrow> bool" where
  "signbit w = bit w 63"

definition biased_exp :: "double \<Rightarrow> nat" where
  "biased_exp w = unat (take_bit 11 (drop_bit 52 w))"

definition fraction :: "double \<Rightarrow> nat" where
  "fraction w = unat (take_bit 52 w)"


definition isinf :: "double \<Rightarrow> bool" where
  "isinf w = (biased_exp w = 2047 \<and> fraction w = 0)"

text \<open>The magnitude of a finite double is \<open>mantissa * 2 ^ exponent\<close>.\<close>

definition mantissa :: "double \<Rightarrow> nat" where
  "mantissa w = (if biased_exp w = 0 then fraction w else 2 ^ 52 + fraction w)"

definition exponent :: "double \<Rightarrow> int" where
  "exponent w = (if biased_exp w = 0 then - 1074 else int (biased_exp w) - 1075)"

section \<open>Stream output of a double\<close>

text \<open>
  \<open>os << x\<close> on a \<open>std::stringstream\<close> whose float field is unset formats \<open>x\<close> like
  \<open>printf("%.*g", precision, x)\<close> in the classic locale: the value is rounded (to nearest,
  ties to even) to \<open>precision\<close> significant decimal digits, written in fixed notation when
  the decimal exponent \<open>X\<close> satisfies \<open>-4 \<le> X < precision\<close> and in scientific notation
  otherwise, and trailing zeros of the fractional part are removed. A precision of 0 counts
  as 1. Infinities and NaNs are written \<open>inf\<close> and \<open>nan\<close>, a set sign bit as a leading
  minus sign (also for zero and for NaN).
\<close>

definition digit_char :: "nat \<Rightarrow> char" where
  "digit_char d = ''0123456789'' ! (d mod 10)"

text \<open>The \<open>w\<close> low decimal digits of \<open>n\<close>, most significant first.\<close>

fun digits_of :: "nat \<Rightarrow> nat \<Rightarrow> string" where
  "digits_of 0 n = []"
| "digits_of (Suc w) n = digits_of w (n div 10) @ [digit_char (n mod 10)]"

definition strip_zeros :: "string \<Rightarrow> string" where
  "strip_zeros s = rev (dropWhile (\<lambda>c. c = CHR ''0'') (rev s))"

text \<open>For \<open>0 < n < d\<close>, the least \<open>j\<close> with \<open>d \<le> n * 10 ^ j\<close>.\<close>

function lift10 :: "nat \<Rightarrow> nat \<Rightarrow> nat" where
  "lift10 n d = (if 0 < n \<and> n < d then Suc (lift10 (10 * n) d) else 0)"
  by pat_completeness auto
termination
  by (relation "measure (\<lambda>(n, d). d - n)") auto

text \<open>The decimal exponent \<open>\<lfloor>log\<^sub>1\<^sub>0 (n / d)\<rfloor>\<close> of a positive fraction.\<close>

definition decimal_exponent :: "nat \<Rightarrow> nat \<Rightarrow> int" where
  "decimal_exponent n d =
     (if d \<le> n then int (floorlog 10 (n div d)) - 1 else - int (lift10 n d))"

text \<open>The quotient \<open>a / b\<close> rounded to the nearest natural number, ties to even.\<close>

definition round_half_even :: "nat \<Rightarrow> nat \<Rightarrow> nat" where
  "round_half_even a b =
     (let q = a div b; r = a mod b
      in if 2 * r < b \<or> (2 * r = b \<and> even q) then q else q + 1)"

text \<open>
  \<open>to_decimal P n d = (D, X)\<close>: the fraction \<open>n / d\<close> rounded to \<open>P\<close> significant digits is
  \<open>D * 10 ^ (X - (P - 1))\<close> with \<open>10 ^ (P - 1) \<le> D < 10 ^ P\<close>.
\<close>

definition to_decimal :: "nat \<Rightarrow> nat \<Rightarrow> nat \<Rightarrow> nat \<times> int" where
  "to_decimal P n d =
     (let X0 = decimal_exponent n d;
          s = int P - 1 - X0;
          D0 = (if 0 \<le> s then round_half_even (n * 10 ^ nat s) d
                else round_half_even n (d * 10 ^ nat (- s)))
      in if D0 = 10 ^ P then (10 ^ (P - 1), X0 + 1) else (D0, X0))"

text \<open>The exponent of scientific notation has at least two digits.\<close>

definition exp_digits :: "nat \<Rightarrow> string" where
  "exp_digits e = digits_of (max 2 (floorlog 10 e)) e"

definition with_point :: "string \<Rightarrow> string \<Rightarrow> string" where
  "with_point ip fp = (if fp = [] then ip else ip @ CHR ''.'' # fp)"

definition render :: "nat \<Rightarrow> nat \<Rightarrow> int \<Rightarrow> string" where
  "render P D X =
     (let ds = digits_of P D
      in if X < - 4 \<or> int P \<le> X then
           with_point (take 1 ds) (strip_zeros (drop 1 ds))
             @ ''e'' @ (if X < 0 then ''-'' else ''+'') @ exp_digits (nat \<bar>X\<bar>)
         else if 0 \<le> X then
           with_point (take (nat X + 1) ds) (strip_zeros (drop (nat X + 1) ds))
         else
           ''0.'' @ replicate (nat (- X - 1)) (CHR ''0'') @ strip_zeros ds)"

definition show_magnitude :: "nat \<Rightarrow> double \<Rightarrow> string" where
  "show_magnitude prec w =
     (if biased_exp w = 2047 then (if fraction w = 0 then ''inf'' else ''nan'')
      else if mantissa w = 0 then ''0''
      else
        (let P = max 1 prec;
             n = mantissa w * 2 ^ nat (exponent w);
             d = 2 ^ nat (- exponent w)
         in case to_decimal P n d of (D, X) \<Rightarrow> render P D X))"

definition show_double :: "nat \<Rightarrow> double \<Rightarrow> string" where
  "show_double prec w = (if signbit w then ''-'' else []) @ show_magnitude prec w"

declare lift10.simps [simp del]

section \<open>Output string streams\<close>

text \<open>
  A \<open>std::stringstream\<close> used for output only: the precision of floating-point output
  (6 on construction) and the characters written so far.
\<close>

record ostream =
  os_precision :: nat
  os_buffer :: string

definition stringstream :: ostream where
  "stringstream = \<lparr>os_precision = 6, os_buffer = []\<rparr>"

definition precision :: "nat \<Rightarrow> ostream \<Rightarrow> ostream" where
  "precision n os = os\<lparr>os_precision := n\<rparr>"

definition put_string :: "string \<Rightarrow> ostream \<Rightarrow> ostream" where
  "put_string s os = os\<lparr>os_buffer := os_buffer os @ s\<rparr>"

definition put_double :: "double \<Rightarrow> ostream \<Rightarrow> ostream" where
  "put_double x os = os\<lparr>os_buffer := os_buffer os @ show_double (os_precision os) x\<rparr>"

definition str :: "ostream \<Rightarrow> string" where
  "str os = os_buffer os"

section \<open>The pressure sensor state\<close>

text \<open>\<open>Eigen::Vector3d\<close>: three doubles, read by \<open>v(0)\<close>, \<open>v(1)\<close> and \<open>v(2)\<close>.\<close>

datatype Vector3d = Vector3d (coeff_0: double) (coeff_1: double) (coeff_2: double)

definition setZero :: Vector3d where
  "setZero = Vector3d 0 0 0"

text \<open>
  Modelled from the spec: the header \<open>mars/type_definitions/base_states.h\<close> declaring class
  \<open>BaseStates\<close> is not among the sources. By the spec every sensor state type
  "declares a covariance dimension"; the constructor call \<open>BaseStates(3)\<close>, commented
  "cov size" in the source, stores it.
\<close>

record BaseStates =
  cov_size :: int

text \<open>
  The class \<open>PressureSensorStateType\<close>; its member \<open>p_ip_\<close> is written \<open>p_ip\<close>, and the
  member \<open>cov_size_\<close> of the base class \<open>cov_size\<close>.
\<close>

record PressureSensorStateType = BaseStates +
  p_ip :: Vector3d

text \<open>The constructor \<open>PressureSensorStateType() : BaseStates(3) { p_ip_.setZero(); }\<close>.\<close>

definition new_PressureSensorStateType :: PressureSensorStateType where
  "new_PressureSensorStateType = \<lparr>cov_size = 3, p_ip = setZero\<rparr>"


text \<open>
  The method \<open>to_csv_string\<close>, run on the object \<open>this\<close>: the statements of its body
  in order, returning the string together with the object as it is after the call.
\<close>

definition to_csv_string_run ::
  "double \<Rightarrow> PressureSensorStateType \<Rightarrow> string \<times> PressureSensorStateType" where
  "to_csv_string_run timestamp this =
     (let os = stringstream;
          os = precision 17 os;
          os = put_double timestamp os;
          os = put_double (coeff_2 (p_ip this)) (put_string '', ''
                 (put_double (coeff_1 (p_ip this)) (put_string '', ''
                   (put_double (coeff_0 (p_ip this)) (put_string '', '' os)))))
      in (str os, this))"


section \<open>Fields of a CSV row\<close>

text \<open>
  A row is cut at its commas; the blanks that follow a comma belong to the separator.
\<close>

fun split_commas :: "string \<Rightarrow> string list" where
  "split_commas [] = [[]]"
| "split_commas (c # cs) =
     (if c = CHR '','' then [] # split_commas cs
      else (case split_commas cs of [] \<Rightarrow> [[c]] | f # fs \<Rightarrow> (c # f) # fs))"


section \<open>Values and their decimal text\<close>





definition is_digit :: "char \<Rightarrow> bool" where
  "is_digit c = (c \<in> set ''0123456789'')"

text \<open>Strings of decimal digits only.\<close>

definition plain :: "string \<Rightarrow> bool" where
  "plain s = (\<forall>c \<in> set s. is_digit c)"


section \<open>The measurement buffer\<close>

text \<open>
  Modelled from the spec: the buffer and its entry type (\<open>mars/buffer.h\<close>,
  \<open>mars/type_definitions/buffer_entry_type.h\<close>) are not among the sources; only their use
  in the end-to-end test is. The definitions below follow sections 3 and 4.2 of the
  specification: an entry carries a timestamp, the handle of the sensor that produced
  it, a kind, a payload and two flags; the buffer is a sequence of entries with a
  capacity. Timestamps are any totally ordered type.
\<close>

datatype entry_kind = Measurement | Sensor_State | Core_State | Init

record ('t, 'h, 'p) BufferEntry =
  timestamp :: 't
  sensor_handle :: 'h
  kind :: entry_kind
  payload :: 'p
  is_checkpoint :: bool
  is_out_of_order_origin :: bool

record ('t, 'h, 'p) Buffer =
  entries :: "('t, 'h, 'p) BufferEntry list"
  N_max :: nat

text \<open>Modelled from the spec: the error kinds of section 7.\<close>

datatype error = NotInitialized | OutlierRejected | NumericFailure | OutOfCapacity | UnknownSensor

text \<open>
  Modelled from the spec: "\<open>insert(entry)\<close> inserts in time order; returns insertion index";
  entries are ordered by timestamp and then by arrival, so the new entry goes behind every
  entry whose timestamp is not later than its own.
\<close>

fun insert_index :: "'t::linorder \<Rightarrow> ('t, 'h, 'p) BufferEntry list \<Rightarrow> nat" where
  "insert_index t [] = 0"
| "insert_index t (x # xs) = (if timestamp x \<le> t then Suc (insert_index t xs) else 0)"

text \<open>
  Modelled from the spec: "If there exists an entry with a later timestamp, the insertion
  is flagged out-of-order; the flag is returned alongside the index." The result is the
  index, the flag and the buffer after the insertion.
\<close>

definition insert_buf ::
  "('t::linorder, 'h, 'p) BufferEntry \<Rightarrow> ('t, 'h, 'p) Buffer \<Rightarrow> nat \<times> bool \<times> ('t, 'h, 'p) Buffer" where
  "insert_buf e b =
     (let i = insert_index (timestamp e) (entries b);
          out_of_order = list_ex (\<lambda>x. timestamp e < timestamp x) (entries b)
      in (i, out_of_order, b\<lparr>entries := take i (entries b) @ e # drop i (entries b)\<rparr>))"

text \<open>
  Modelled from the spec: "\<open>prune_oldest()\<close>: capacity enforcement. When full, the oldest
  entry is dropped provided it is not the sole predecessor of an unmaterialized state";
  a protected oldest entry gives the error OutOfCapacity. Which entries are protected is
  the parameter \<open>protected\<close>.
\<close>

definition prune_oldest ::
  "(('t, 'h, 'p) BufferEntry \<Rightarrow> ('t, 'h, 'p) BufferEntry list \<Rightarrow> bool)
     \<Rightarrow> ('t, 'h, 'p) Buffer \<Rightarrow> error + ('t, 'h, 'p) Buffer" where
  "prune_oldest protected b =
     (case entries b of
        [] \<Rightarrow> Inr b
      | x # xs \<Rightarrow>
          if length (entries b) \<le> N_max b then Inr b
          else if protected x xs then Inl OutOfCapacity
          else Inr (b\<lparr>entries := xs\<rparr>))"

text \<open>Modelled from the spec: \<open>remove_after(index)\<close> removes the entries behind the index.\<close>

definition remove_after :: "nat \<Rightarrow> ('t, 'h, 'p) Buffer \<Rightarrow> ('t, 'h, 'p) Buffer" where
  "remove_after i b = b\<lparr>entries := take (Suc i) (entries b)\<rparr>"

text \<open>Modelled from the spec: "When the buffer is reset (\<open>clear\<close>), every entry is released."\<close>

definition clear :: "('t, 'h, 'p) Buffer \<Rightarrow> ('t, 'h, 'p) Buffer" where
  "clear b = b\<lparr>entries := []\<rparr>"

text \<open>
  Modelled from the spec: "\<open>get_latest_state()\<close>: newest entry of kind Core-State", with a
  not-found signal when there is none.
\<close>

definition get_latest_state :: "('t, 'h, 'p) Buffer \<Rightarrow> ('t, 'h, 'p) BufferEntry option" where
  "get_latest_state b = find (\<lambda>e. kind e = Core_State) (rev (entries b))"

section \<open>The filter logic before and at initialization\<close>

datatype Quaterniond = Quaterniond (q_w: double) (q_x: double) (q_y: double) (q_z: double)

text \<open>
  Modelled from the spec: \<open>mars/core_logic.h\<close> and \<open>mars/core_state.h\<close> are not among the
  sources. The core nominal state of section 3: position, velocity, attitude, gyroscope
  bias and accelerometer bias.
\<close>

record CoreStateType =
  p_wi :: Vector3d
  v_wi :: Vector3d
  q_wi :: Quaterniond
  b_w :: Vector3d
  b_a :: Vector3d

text \<open>
  Modelled from the spec: the payload of an entry (section 3), "either raw measurement, a
  post-update sensor nominal+calibration snapshot, a propagated core nominal+covariance
  snapshot, or an init marker"; the result values of \<open>process_measurement\<close> (section 6).
\<close>

datatype ('m, 's, 'c) payload_type =
  Raw_Measurement 'm | Sensor_Snapshot 's | Core_Snapshot CoreStateType 'c | Init_Marker

datatype status = Accepted | Rejected | Deferred

text \<open>
  Modelled from the spec: section 4.5 leaves open whether a measurement of another sensor
  that arrives before initialization is "buffered but not processed" or dropped; both
  policies are modelled. The filter owns the buffer and knows the propagation sensor and
  the configured initial covariance.
\<close>

datatype pre_init_policy = Keep_Unprocessed | Drop

record ('t, 'h, 'm, 's, 'c) CoreLogic =
  core_is_initialized :: bool
  buffer :: "('t, 'h, ('m, 's, 'c) payload_type) Buffer"
  propagation_sensor :: 'h
  initial_covariance :: 'c
  policy :: pre_init_policy

definition measurement_entry ::
  "'h \<Rightarrow> 't \<Rightarrow> 'm \<Rightarrow> ('t, 'h, ('m, 's, 'c) payload_type) BufferEntry" where
  "measurement_entry sensor t m =
     \<lparr>timestamp = t, sensor_handle = sensor, kind = Measurement, payload = Raw_Measurement m,
      is_checkpoint = False, is_out_of_order_origin = False\<rparr>"

text \<open>
  Modelled from the spec: "The filter ignores all entries until \<open>initialize\<close> is called" and
  "NotInitialized: API called before \<open>initialize()\<close>; returned to caller, no state change".
  Before initialization the measurement is at most stored, never processed. What an
  initialized filter does with a measurement (propagation, update, repropagation) is the
  parameter \<open>dispatch\<close>.
\<close>

definition ProcessMeasurement ::
  "('h \<Rightarrow> 't \<Rightarrow> 'm \<Rightarrow> ('t::linorder, 'h, 'm, 's, 'c) CoreLogic
      \<Rightarrow> (error + status) \<times> ('t, 'h, 'm, 's, 'c) CoreLogic)
   \<Rightarrow> 'h \<Rightarrow> 't \<Rightarrow> 'm \<Rightarrow> ('t, 'h, 'm, 's, 'c) CoreLogic
   \<Rightarrow> (error + status) \<times> ('t, 'h, 'm, 's, 'c) CoreLogic" where
  "ProcessMeasurement dispatch sensor t m cl =
     (if \<not> core_is_initialized cl then
        (Inl NotInitialized,
         if policy cl = Keep_Unprocessed \<and> sensor \<noteq> propagation_sensor cl
         then cl\<lparr>buffer := snd (snd (insert_buf (measurement_entry sensor t m) (buffer cl)))\<rparr>
         else cl)
      else dispatch sensor t m cl)"

text \<open>A sequence of \<open>ProcessMeasurement\<close> calls, each on the filter left by the one before.\<close>

fun process_all ::
  "('h \<Rightarrow> 't \<Rightarrow> 'm \<Rightarrow> ('t::linorder, 'h, 'm, 's, 'c) CoreLogic
      \<Rightarrow> (error + status) \<times> ('t, 'h, 'm, 's, 'c) CoreLogic)
   \<Rightarrow> ('h \<times> 't \<times> 'm) list \<Rightarrow> ('t, 'h, 'm, 's, 'c) CoreLogic
   \<Rightarrow> ('t, 'h, 'm, 's, 'c) CoreLogic" where
  "process_all dispatch [] cl = cl"
| "process_all dispatch ((sensor, t, m) # rest) cl =
     process_all dispatch rest (snd (ProcessMeasurement dispatch sensor t m cl))"

text \<open>
  Modelled from the spec: \<open>initialize\<close> "seeds \<open>p_wi = p\<^sub>0\<close>, \<open>q_wi = q\<^sub>0\<close>, zero velocity, zero
  biases, and a configured initial covariance". The seeded state is stored as a Core-State
  entry, which is where the end-to-end test reads it with \<open>get_latest_state\<close>; the spec
  does not say which timestamp that entry carries, so it is the parameter \<open>t0\<close>.
\<close>

definition initial_core_state :: "Vector3d \<Rightarrow> Quaterniond \<Rightarrow> CoreStateType" where
  "initial_core_state p0 q0 =
     \<lparr>p_wi = p0, v_wi = setZero, q_wi = q0, b_w = setZero, b_a = setZero\<rparr>"

definition initial_entry ::
  "'t \<Rightarrow> Vector3d \<Rightarrow> Quaterniond \<Rightarrow> ('t, 'h, 'm, 's, 'c) CoreLogic
     \<Rightarrow> ('t, 'h, ('m, 's, 'c) payload_type) BufferEntry" where
  "initial_entry t0 p0 q0 cl =
     \<lparr>timestamp = t0, sensor_handle = propagation_sensor cl, kind = Core_State,
      payload = Core_Snapshot (initial_core_state p0 q0) (initial_covariance cl),
      is_checkpoint = True, is_out_of_order_origin = False\<rparr>"

definition Initialize ::
  "'t::linorder \<Rightarrow> Vector3d \<Rightarrow> Quaterniond \<Rightarrow> ('t, 'h, 'm, 's, 'c) CoreLogic
     \<Rightarrow> ('t, 'h, 'm, 's, 'c) CoreLogic" where
  "Initialize t0 p0 q0 cl =
     cl\<lparr>core_is_initialized := True,
        buffer := snd (snd (insert_buf (initial_entry t0 p0 q0 cl) (buffer cl)))\<rparr>"

text \<open>
  The entries that carry filter state (Core-State, Sensor-State and Init entries):
  everything but stored measurements.
\<close>

definition state_entries ::
  "('t, 'h, 'p) Buffer \<Rightarrow> ('t, 'h, 'p) BufferEntry list" where
  "state_entries b = filter (\<lambda>e. kind e \<noteq> Measurement) (entries b)"

section \<open>Example inputs\<close>

text \<open>
  A buffer of three stored measurements at the times 1, 3 and 5 with capacity 2, and an
  uninitialized filter with an empty buffer; the theorems below are instantiated on them.
\<close>

definition example_entry :: "int \<Rightarrow> nat \<Rightarrow> (int, nat, unit) BufferEntry" where
  "example_entry t h =
     \<lparr>timestamp = t, sensor_handle = h, kind = Measurement, payload = (),
      is_checkpoint = False, is_out_of_order_origin = False\<rparr>"

definition example_buffer :: "(int, nat, unit) Buffer" where
  "example_buffer =
     \<lparr>entries = [example_entry 1 0, example_entry 3 1, example_entry 5 0], N_max = 2\<rparr>"

definition example_filter :: "(int, nat, unit, unit, unit) CoreLogic" where
  "example_filter =
     \<lparr>core_is_initialized = False, buffer = \<lparr>entries = [], N_max = 10\<rparr>,
      propagation_sensor = 0, initial_covariance = (), policy = Keep_Unprocessed\<rparr>"

definition example_dispatch ::
  "nat \<Rightarrow> int \<Rightarrow> unit \<Rightarrow> (int, nat, unit, unit, unit) CoreLogic
     \<Rightarrow> (error + status) \<times> (int, nat, unit, unit, unit) CoreLogic" where
  "example_dispatch sensor t m cl = (Inr Accepted, cl)"

text \<open>Characters that can occur inside a field: neither the comma nor the blank.\<close>

definition field_char :: "char \<Rightarrow> bool" where
  "field_char c = (c \<noteq> CHR '','' \<and> c \<noteq> CHR '' '')"

definition field_text :: "string \<Rightarrow> bool" where
  "field_text s = (\<forall>c \<in> set s. field_char c)"


section \<open>Rows of the pressure sensor state\<close>

lemma field_text_Nil [simp]: "field_text []"
  by (simp add: field_text_def)

lemma field_text_Cons [simp]: "field_text (c # s) = (field_char c \<and> field_text s)"
  by (simp add: field_text_def)

lemma field_text_append [simp]: "field_text (s @ t) = (field_text s \<and> field_text t)"
  by (auto simp: field_text_def)

lemma digit_char_in: "digit_char d \<in> set ''0123456789''"
proof -
  have "d mod 10 < length ''0123456789''" by simp
  then show ?thesis unfolding digit_char_def by (rule nth_mem)
qed











lemma split_commas_nonempty: "split_commas s \<noteq> []"
  by (induction s) (auto split: list.splits)









text \<open>
  C5: the constructor declares the covariance dimension 3, and a pressure-sensor state
  consists of that dimension and of \<open>p_ip\<close> alone, a vector of exactly three components.
\<close>

theorem pressure_state_shape:
  "cov_size new_PressureSensorStateType = 3
   \<and> this = \<lparr>cov_size = cov_size this,
        p_ip = Vector3d (coeff_0 (p_ip this)) (coeff_1 (p_ip this)) (coeff_2 (p_ip this))\<rparr>"
  by (simp add: new_PressureSensorStateType_def)

text \<open>
  C9: a default-constructed pressure-sensor state has \<open>p_ip\<close> equal to the zero vector; the
  state holds nothing else but the covariance dimension, so neither a pressure bias nor a
  scale is part of it.
\<close>

theorem default_state_zero:
  "new_PressureSensorStateType = \<lparr>cov_size = 3, p_ip = Vector3d 0 0 0\<rparr>
   \<and> coeff_0 (p_ip new_PressureSensorStateType) = 0
   \<and> coeff_1 (p_ip new_PressureSensorStateType) = 0
   \<and> coeff_2 (p_ip new_PressureSensorStateType) = 0"
  by (simp add: new_PressureSensorStateType_def setZero_def)

text \<open>
  C10: a call of \<open>to_csv_string\<close> leaves the object as it was, \<open>p_ip\<close> and the covariance
  dimension included, and a second call with the same timestamp on the object left by the
  first returns the same string. (\<open>get_csv_state_header_string\<close> is static: it has no object
  and is a constant string.)
\<close>

theorem to_csv_string_frame:
  "snd (to_csv_string_run ts this) = this
   \<and> p_ip (snd (to_csv_string_run ts this)) = p_ip this
   \<and> cov_size (snd (to_csv_string_run ts this)) = cov_size this
   \<and> fst (to_csv_string_run ts (snd (to_csv_string_run ts this)))
       = fst (to_csv_string_run ts this)"
  by (simp add: to_csv_string_run_def Let_def)

section \<open>Time order of the buffer\<close>

lemma insert_index_le: "insert_index t xs \<le> length xs"
  by (induction xs) auto

lemma insert_index_before:
  "x \<in> set (take (insert_index t xs) xs) \<Longrightarrow> timestamp x \<le> t"
  by (induction xs) (auto split: if_splits)

lemma insert_index_after:
  "sorted (map timestamp xs) \<Longrightarrow> x \<in> set (drop (insert_index t xs) xs) \<Longrightarrow> t < timestamp x"
  by (induction xs) (auto split: if_splits)

lemma sorted_insert_at:
  assumes "sorted (map timestamp xs)"
  shows "sorted (map timestamp (take (insert_index (timestamp e) xs) xs
           @ e # drop (insert_index (timestamp e) xs) xs))"
proof -
  let ?i = "insert_index (timestamp e) xs"
  have s1: "sorted (map timestamp (take ?i xs))"
    using assms by (simp add: sorted_map)
  have s2: "sorted (map timestamp (drop ?i xs))"
    using assms by (simp add: sorted_map)
  have b: "\<forall>x \<in> set (take ?i xs). timestamp x \<le> timestamp e"
    using insert_index_before by blast
  have a: "\<forall>x \<in> set (drop ?i xs). timestamp e < timestamp x"
    using insert_index_after[OF assms] by blast
  have "\<forall>x \<in> set (take ?i xs). \<forall>y \<in> set (drop ?i xs). timestamp x \<le> timestamp y"
    using a b by fastforce
  then show ?thesis
    using s1 s2 a b by (auto simp: sorted_append less_imp_le)
qed

lemma sorted_take_ts: "sorted (map timestamp xs) \<Longrightarrow> sorted (map timestamp (take k xs))"
  by (simp add: sorted_map)

lemma sorted_tl_ts: "sorted (map timestamp (x # xs)) \<Longrightarrow> sorted (map timestamp xs)"
  by simp

text \<open>
  C4: after every buffer operation (insert, prune_oldest, remove_after, clear) the entries
  are in non-decreasing timestamp order, and entries of equal timestamp keep their arrival
  order: an inserted entry goes behind every entry whose timestamp is not later than its
  own, and the other operations only cut entries off one end.
\<close>

theorem buffer_time_order:
  assumes "sorted (map timestamp (entries b))"
  shows "sorted (map timestamp (entries (snd (snd (insert_buf e b)))))
    \<and> (let i = fst (insert_buf e b) in
         entries (snd (snd (insert_buf e b))) = take i (entries b) @ e # drop i (entries b)
         \<and> (\<forall>x \<in> set (take i (entries b)). timestamp x \<le> timestamp e)
         \<and> (\<forall>x \<in> set (drop i (entries b)). timestamp e < timestamp x))
    \<and> (\<forall>b'. prune_oldest protected b = Inr b' \<longrightarrow>
           sorted (map timestamp (entries b')) \<and> suffix (entries b') (entries b))
    \<and> sorted (map timestamp (entries (remove_after k b)))
    \<and> prefix (entries (remove_after k b)) (entries b)
    \<and> sorted (map timestamp (entries (clear b)))"
proof -
  have ins: "sorted (map timestamp (entries (snd (snd (insert_buf e b)))))"
    using sorted_insert_at[OF assms] by (simp add: insert_buf_def Let_def)
  have stab: "let i = fst (insert_buf e b) in
         entries (snd (snd (insert_buf e b))) = take i (entries b) @ e # drop i (entries b)
         \<and> (\<forall>x \<in> set (take i (entries b)). timestamp x \<le> timestamp e)
         \<and> (\<forall>x \<in> set (drop i (entries b)). timestamp e < timestamp x)"
    using insert_index_before insert_index_after[OF assms]
    by (auto simp: insert_buf_def Let_def)
  have pr: "\<forall>b'. prune_oldest protected b = Inr b' \<longrightarrow>
           sorted (map timestamp (entries b')) \<and> suffix (entries b') (entries b)"
    using assms
    by (auto simp: prune_oldest_def suffix_def split: list.splits if_splits)
  have rm: "sorted (map timestamp (entries (remove_after k b)))"
    using sorted_take_ts[OF assms] by (simp add: remove_after_def)
  have rm2: "prefix (entries (remove_after k b)) (entries b)"
    by (simp add: remove_after_def take_is_prefix)
  have cl: "sorted (map timestamp (entries (clear b)))"
    by (simp add: clear_def)
  show ?thesis using ins stab pr rm rm2 cl by blast
qed

theorem buffer_time_order_witness:
  "sorted (map timestamp (entries example_buffer))
   \<and> map timestamp (entries (snd (snd (insert_buf (example_entry 3 2) example_buffer))))
       = [1, 3, 3, 5]
   \<and> map sensor_handle (entries (snd (snd (insert_buf (example_entry 3 2) example_buffer))))
       = [0, 1, 2, 0]
   \<and> sorted (map timestamp (entries (snd (snd (insert_buf (example_entry 3 2) example_buffer)))))
   \<and> prune_oldest (\<lambda>x xs. False) example_buffer
       = Inr \<lparr>entries = [example_entry 3 1, example_entry 5 0], N_max = 2\<rparr>
   \<and> sorted (map timestamp [example_entry 3 1, example_entry 5 0])
   \<and> sorted (map timestamp (entries (remove_after 0 example_buffer)))
   \<and> sorted (map timestamp (entries (clear example_buffer)))"
proof -
  have h: "sorted (map timestamp (entries example_buffer))"
    by (simp add: example_buffer_def example_entry_def)
  have p: "prune_oldest (\<lambda>x xs. False) example_buffer
       = Inr \<lparr>entries = [example_entry 3 1, example_entry 5 0], N_max = 2\<rparr>"
    by (simp add: prune_oldest_def example_buffer_def)
  have i: "entries (snd (snd (insert_buf (example_entry 3 2) example_buffer)))
       = [example_entry 1 0, example_entry 3 1, example_entry 3 2, example_entry 5 0]"
    by (simp add: insert_buf_def example_buffer_def example_entry_def)
  have t: "map timestamp [example_entry 1 0, example_entry 3 1, example_entry 3 2, example_entry 5 0]
       = [1, 3, 3, 5]"
    by (simp add: example_entry_def)
  have s: "map sensor_handle [example_entry 1 0, example_entry 3 1, example_entry 3 2, example_entry 5 0]
       = [0, 1, 2, 0]"
    by (simp add: example_entry_def)
  from buffer_time_order [OF h, of "example_entry 3 2" "\<lambda>x xs. False" 0] p
  have "sorted (map timestamp (entries (snd (snd (insert_buf (example_entry 3 2) example_buffer)))))
    \<and> sorted (map timestamp [example_entry 3 1, example_entry 5 0])
    \<and> sorted (map timestamp (entries (remove_after 0 example_buffer)))
    \<and> sorted (map timestamp (entries (clear example_buffer)))"
    by auto
  then show ?thesis using h p i t s by simp
qed

section \<open>Initialization of the filter\<close>

lemma state_entries_insert_measurement:
  "kind e = Measurement \<Longrightarrow>
     state_entries (snd (snd (insert_buf e b))) = state_entries b"
proof -
  assume k: "kind e = Measurement"
  let ?i = "insert_index (timestamp e) (entries b)"
  let ?P = "\<lambda>e. kind e \<noteq> Measurement"
  have "filter ?P (take ?i (entries b) @ e # drop ?i (entries b))
      = filter ?P (take ?i (entries b)) @ filter ?P (drop ?i (entries b))"
    using k by simp
  also have "\<dots> = filter ?P (take ?i (entries b) @ drop ?i (entries b))"
    by (simp only: filter_append)
  also have "\<dots> = filter ?P (entries b)"
    by (simp only: append_take_drop_id)
  finally show ?thesis
    by (simp add: state_entries_def insert_buf_def Let_def)
qed

lemma ProcessMeasurement_uninitialized:
  assumes "\<not> core_is_initialized cl"
  shows "fst (ProcessMeasurement dispatch sensor t m cl) = Inl NotInitialized"
    and "\<not> core_is_initialized (snd (ProcessMeasurement dispatch sensor t m cl))"
    and "state_entries (buffer (snd (ProcessMeasurement dispatch sensor t m cl)))
         = state_entries (buffer cl)"
    and "policy (snd (ProcessMeasurement dispatch sensor t m cl)) = policy cl"
    and "policy cl = Drop \<Longrightarrow> snd (ProcessMeasurement dispatch sensor t m cl) = cl"
  using assms
  by (simp_all add: ProcessMeasurement_def state_entries_insert_measurement
      measurement_entry_def)

lemma process_all_uninitialized:
  "\<not> core_is_initialized cl \<Longrightarrow>
     \<not> core_is_initialized (process_all dispatch ms cl)
     \<and> state_entries (buffer (process_all dispatch ms cl)) = state_entries (buffer cl)
     \<and> (policy cl = Drop \<longrightarrow> process_all dispatch ms cl = cl)"
proof (induction ms arbitrary: cl)
  case Nil
  show ?case using Nil by simp
next
  case (Cons c ms)
  obtain sensor t m where c: "c = (sensor, t, m)" by (cases c)
  let ?cl = "snd (ProcessMeasurement dispatch sensor t m cl)"
  note step = ProcessMeasurement_uninitialized[OF Cons.prems, of dispatch sensor t m]
  have ih: "\<not> core_is_initialized (process_all dispatch ms ?cl)
     \<and> state_entries (buffer (process_all dispatch ms ?cl)) = state_entries (buffer ?cl)
     \<and> (policy ?cl = Drop \<longrightarrow> process_all dispatch ms ?cl = ?cl)"
    by (rule Cons.IH) (rule step(2))
  show ?case
    unfolding c process_all.simps using ih step(3,4,5) by auto
qed

lemma find_behind:
  "\<forall>a \<in> set as. \<not> P a \<Longrightarrow> P x \<Longrightarrow> find P (as @ x # bs) = Some x"
  by (induction as) auto

lemma get_latest_state_Initialize:
  assumes "state_entries (buffer cl) = []"
  shows "get_latest_state (buffer (Initialize t0 p0 q0 cl)) = Some (initial_entry t0 p0 q0 cl)"
proof -
  let ?e = "initial_entry t0 p0 q0 cl"
  let ?xs = "entries (buffer cl)"
  let ?i = "insert_index (timestamp ?e) ?xs"
  have none: "\<forall>a \<in> set ?xs. kind a = Measurement"
    using assms by (simp add: state_entries_def filter_empty_conv)
  have "\<forall>a \<in> set (rev (drop ?i ?xs)). \<not> kind a = Core_State"
    using none by (auto dest: in_set_dropD)
  moreover have "kind ?e = Core_State" by (simp add: initial_entry_def)
  ultimately have "find (\<lambda>e. kind e = Core_State) (rev (drop ?i ?xs) @ ?e # rev (take ?i ?xs)) = Some ?e"
    by (rule find_behind)
  then show ?thesis
    by (simp add: get_latest_state_def Initialize_def insert_buf_def Let_def)
qed

text \<open>
  C3: while the filter is uninitialized, \<open>ProcessMeasurement\<close> processes nothing: it returns
  NotInitialized, the filter stays uninitialized and its state entries stay as they were
  (under the dropping policy the filter is unchanged altogether), for one call and for
  every sequence of calls. \<open>Initialize\<close> marks the filter initialized and seeds the core state
  with \<open>p_wi = p\<^sub>0\<close>, \<open>q_wi = q\<^sub>0\<close>, zero velocity, zero biases and the configured initial
  covariance.
\<close>

theorem ignored_until_initialized:
  assumes "\<not> core_is_initialized cl"
  shows "fst (ProcessMeasurement dispatch sensor t m cl) = Inl NotInitialized
    \<and> \<not> core_is_initialized (snd (ProcessMeasurement dispatch sensor t m cl))
    \<and> state_entries (buffer (snd (ProcessMeasurement dispatch sensor t m cl)))
        = state_entries (buffer cl)
    \<and> (policy cl = Drop \<longrightarrow> snd (ProcessMeasurement dispatch sensor t m cl) = cl)
    \<and> \<not> core_is_initialized (process_all dispatch ms cl)
    \<and> state_entries (buffer (process_all dispatch ms cl)) = state_entries (buffer cl)
    \<and> (policy cl = Drop \<longrightarrow> process_all dispatch ms cl = cl)
    \<and> core_is_initialized (Initialize t0 p0 q0 cl)
    \<and> (state_entries (buffer cl) = [] \<longrightarrow>
          get_latest_state (buffer (Initialize t0 p0 q0 cl)) = Some (initial_entry t0 p0 q0 cl))
    \<and> payload (initial_entry t0 p0 q0 cl) =
          Core_Snapshot
            \<lparr>p_wi = p0, v_wi = Vector3d 0 0 0, q_wi = q0,
             b_w = Vector3d 0 0 0, b_a = Vector3d 0 0 0\<rparr>
            (initial_covariance cl)"
proof -
  note pm = ProcessMeasurement_uninitialized[OF assms, of dispatch sensor t m]
  note pa = process_all_uninitialized[OF assms, of dispatch ms]
  have init: "core_is_initialized (Initialize t0 p0 q0 cl)"
    by (simp add: Initialize_def)
  have seed: "payload (initial_entry t0 p0 q0 cl) =
          Core_Snapshot
            \<lparr>p_wi = p0, v_wi = Vector3d 0 0 0, q_wi = q0,
             b_w = Vector3d 0 0 0, b_a = Vector3d 0 0 0\<rparr>
            (initial_covariance cl)"
    by (simp add: initial_entry_def initial_core_state_def setZero_def)
  show ?thesis
    using pm(1,2,3) pm(5) pa init get_latest_state_Initialize[of cl t0 p0 q0] seed
    by blast
qed

theorem ignored_until_initialized_witness:
  "\<not> core_is_initialized example_filter
   \<and> fst (ProcessMeasurement example_dispatch 1 5 () example_filter) = Inl NotInitialized
   \<and> \<not> core_is_initialized
         (process_all example_dispatch [(0, 1, ()), (1, 2, ())] example_filter)
   \<and> state_entries (buffer (process_all example_dispatch [(0, 1, ()), (1, 2, ())] example_filter))
       = []
   \<and> core_is_initialized
         (Initialize 1 (Vector3d 0 0 0x4014000000000000)
            (Quaterniond 0x3FF0000000000000 0 0 0) example_filter)
   \<and> map_option payload
         (get_latest_state (buffer
            (Initialize 1 (Vector3d 0 0 0x4014000000000000)
               (Quaterniond 0x3FF0000000000000 0 0 0) example_filter)))
       = Some (Core_Snapshot
           \<lparr>p_wi = Vector3d 0 0 0x4014000000000000, v_wi = Vector3d 0 0 0,
            q_wi = Quaterniond 0x3FF0000000000000 0 0 0,
            b_w = Vector3d 0 0 0, b_a = Vector3d 0 0 0\<rparr> ())"
proof -
  have h: "\<not> core_is_initialized example_filter"
    by (simp add: example_filter_def)
  have e: "state_entries (buffer example_filter) = []"
    by (simp add: example_filter_def state_entries_def)
  show ?thesis
    using h e
      ignored_until_initialized [OF h, of example_dispatch 1 5 "()" "[(0, 1, ()), (1, 2, ())]"
        1 "Vector3d 0 0 0x4014000000000000" "Quaterniond 0x3FF0000000000000 0 0 0"]
    by simp
qed

section \<open>Rounding to significant decimal digits\<close>






section \<open>Fields, magnitude and spacing of doubles\<close>


lemma biased_exp_less: "biased_exp w < 2048"
proof -
  have "biased_exp w < 2 ^ 11"
    unfolding biased_exp_def by (simp only: unsigned_take_bit_eq take_bit_nat_less_exp)
  then show ?thesis by simp
qed












section \<open>The decimal text determines digits and exponent\<close>

lemma is_digit_digit_char [simp]: "is_digit (digit_char d)"
  unfolding is_digit_def by (rule digit_char_in)




lemma length_digits_of [simp]: "length (digits_of w n) = w"
  by (induction w arbitrary: n) simp_all

lemma digits_of_all_digits: "\<forall>c \<in> set (digits_of w n). is_digit c"
  by (induction w arbitrary: n) auto








lemma set_strip_zeros: "set (strip_zeros s) \<subseteq> set s"
  by (auto simp: strip_zeros_def dest: set_dropWhileD)








lemma plain_digits_of [simp]: "plain (digits_of w n)"
  unfolding plain_def by (rule digits_of_all_digits)

lemma plain_take [simp]: "plain s \<Longrightarrow> plain (take k s)"
  by (auto simp: plain_def dest: in_set_takeD)

lemma plain_drop [simp]: "plain s \<Longrightarrow> plain (drop k s)"
  by (auto simp: plain_def dest: in_set_dropD)

lemma plain_strip [simp]: "plain s \<Longrightarrow> plain (strip_zeros s)"
  using set_strip_zeros[of s] by (auto simp: plain_def)
















section \<open>The text of a double determines the double\<close>



















section \<open>Precision and round trip of a row\<close>












end
